theory Spec2Isabelle
  imports Main
begin

unbundle bit_operations_syntax

section \<open>A shallow embedding of smallsh.c\<close>

text \<open>
  The shell of \<^verbatim>\<open>smallsh.c\<close> is one C file: a parser (\<^verbatim>\<open>parseUserCmd\<close>), a control
  loop in \<^verbatim>\<open>main\<close> that reaps background children, dispatches built-ins or forks, and a
  handler for SIGTSTP (\<^verbatim>\<open>catchSIGTSTP\<close>). C strings are modelled by \<^typ>\<open>string\<close> (the
  characters before the terminating NUL), a \<^verbatim>\<open>char *\<close> that may be NULL by
  \<^typ>\<open>string option\<close>, C \<^verbatim>\<open>int\<close>s that hold process IDs and wait statuses by \<^typ>\<open>int\<close>,
  and every behaviour that C leaves undefined (a NULL passed to \<^verbatim>\<open>strcpy\<close>, a write past
  the end of a buffer or array) by a \<open>fault\<close> value.
\<close>

subsection \<open>Constants\<close>

definition MAX_LINE_LENGTH :: nat where
  "MAX_LINE_LENGTH = 2048"

definition MAX_LINE_ARGS :: nat where
  "MAX_LINE_ARGS = 512"

definition CMD_NAME :: nat where
  "CMD_NAME = 0"

definition STDIN_NUM :: nat where
  "STDIN_NUM = 0"

definition STDOUT_NUM :: nat where
  "STDOUT_NUM = 1"

text \<open>The size of \<^verbatim>\<open>int backgroundPids[100]\<close> in \<^verbatim>\<open>main\<close>.\<close>

definition BG_PIDS_SIZE :: nat where
  "BG_PIDS_SIZE = 100"

text \<open>The size of the buffer \<^verbatim>\<open>malloc(512)\<close> that receives a redirect path.\<close>

definition REDIRECT_PATH_SIZE :: nat where
  "REDIRECT_PATH_SIZE = 512"

subsection \<open>Faults and events\<close>

datatype fault =
    NullDeref          \<comment> \<open>a NULL pointer handed to \<^verbatim>\<open>strcpy\<close>\<close>
  | BufferOverflow     \<comment> \<open>a string copied into a buffer too small for it\<close>
  | OutOfBounds        \<comment> \<open>an array indexed past its last element\<close>
  | ProcessExit int    \<comment> \<open>\<^verbatim>\<open>exit(n)\<close>\<close>

datatype signal = SIGINT | SIGTSTP | SIGTERM

datatype disposition = SIG_DFL | SIG_IGN

datatype open_mode = O_RDONLY | O_WRONLY | O_WRONLY_CREAT_TRUNC

text \<open>
  What the process asks of the operating system, in program order. \<open>Waitpid p True\<close> is
  \<^verbatim>\<open>waitpid(p, &st, 0)\<close>, which blocks until the child changes state;
  \<open>Waitpid p False\<close> is \<^verbatim>\<open>waitpid(p, &st, WNOHANG)\<close>.
\<close>

datatype event =
    Waitpid int bool
  | Printf string
  | WriteFd nat string
  | OpenDup string open_mode nat
  | Sigaction signal disposition
  | Dup2Saved nat
  | Execvp string "string list"

subsection \<open>Decimal output (\<^verbatim>\<open>%d\<close>)\<close>

definition digit_char :: "nat \<Rightarrow> char" where
  "digit_char d = ''0123456789'' ! d"

function dec_nat :: "nat \<Rightarrow> string" where
  "dec_nat n = (if n < 10 then [digit_char n] else dec_nat (n div 10) @ [digit_char (n mod 10)])"
  by pat_completeness auto
termination
  by (relation "measure id") auto

declare dec_nat.simps [simp del]

definition dec_int :: "int \<Rightarrow> string" where
  "dec_int i = (if i < 0 then CHR ''-'' # dec_nat (nat (- i)) else dec_nat (nat i))"

subsection \<open>Wait statuses\<close>

text \<open>
  \<^verbatim>\<open>WIFEXITED\<close>, \<^verbatim>\<open>WEXITSTATUS\<close>, \<^verbatim>\<open>WIFSIGNALED\<close> and \<^verbatim>\<open>WTERMSIG\<close> are macros of the
  platform's \<^verbatim>\<open>sys/wait.h\<close>, not of the repository, so the functions that use them take
  them as a parameter.
\<close>

record wait_macros =
  WIFEXITED :: "int \<Rightarrow> bool"
  WEXITSTATUS :: "int \<Rightarrow> int"
  WIFSIGNALED :: "int \<Rightarrow> bool"
  WTERMSIG :: "int \<Rightarrow> int"

text \<open>
  The encoding of Linux with glibc, used to evaluate concrete statuses: the low seven bits
  are the terminating signal (0 for a normal exit, 127 for a stopped child), bits 8 to 15
  the exit code. \<^verbatim>\<open>WIFSIGNALED(s)\<close> is \<^verbatim>\<open>((signed char) ((s & 0x7f) + 1) >> 1) > 0\<close>.
\<close>

definition signed_char :: "int \<Rightarrow> int" where
  "signed_char x = (if 128 \<le> x mod 256 then x mod 256 - 256 else x mod 256)"

definition linux_wait :: wait_macros where
  "linux_wait = \<lparr>
     WIFEXITED = (\<lambda>s. s AND 127 = 0),
     WEXITSTATUS = (\<lambda>s. drop_bit 8 (s AND 65280)),
     WIFSIGNALED = (\<lambda>s. 0 < signed_char ((s AND 127) + 1) div 2),
     WTERMSIG = (\<lambda>s. s AND 127) \<rparr>"

text \<open>\<^verbatim>\<open>reportExitStatus\<close>: the lines it prints.\<close>

definition reportExitStatus :: "wait_macros \<Rightarrow> int \<Rightarrow> event list" where
  "reportExitStatus m exitMethod =
     (if WIFEXITED m exitMethod then
        [Printf (''Exit Status: '' @ dec_int (WEXITSTATUS m exitMethod) @ [CHR 0x0A])]
      else if WIFSIGNALED m exitMethod then
        (let termSignal = WTERMSIG m exitMethod in
         if termSignal \<noteq> 123 then
           [Printf (''Terminating Signal: '' @ dec_int termSignal @ [CHR 0x0A])]
         else [])
      else [])"

subsection \<open>The state of the shell process\<close>

text \<open>
  The two globals shared with the signal handler, the variables of \<^verbatim>\<open>main\<close> that outlive
  one iteration of the prompt loop, and the events issued so far. \<^verbatim>\<open>bool\<close> is the
  two-valued enum of the source. \<open>backgroundPidCount\<close> starts at 0 and is decremented only
  inside a loop that runs while an index is below it, so it is a natural number.
\<close>

record shell =
  foregroundOnly :: bool
  fgPidForSignal :: int
  childExitMethod :: int
  backgroundPids :: "int list"
  backgroundPidCount :: nat
  bgChildExitMethod :: int
  trace :: "event list"

definition emit :: "event list \<Rightarrow> shell \<Rightarrow> shell" where
  "emit es st = st\<lparr>trace := trace st @ es\<rparr>"

subsection \<open>The SIGTSTP handler\<close>

definition enter_msg :: string where
  "enter_msg = CHR 0x0A # ''Entering foreground only mode. (& is now ignored)'' @ [CHR 0x0A, CHR '':'']"

definition exit_msg :: string where
  "exit_msg = CHR 0x0A # ''Exiting foreground only mode.'' @ [CHR 0x0A, CHR '':'']"

text \<open>
  \<^verbatim>\<open>catchSIGTSTP\<close>: the guard \<^verbatim>\<open>if (fgPidForSignal != -5)\<close> around the wait is commented
  out in the source, so the handler always calls \<^verbatim>\<open>waitpid(fgPidForSignal, &exitMeth, 0)\<close>
  first; the status goes to a local variable. The flag is flipped and the message written
  once that call has returned.
\<close>

definition catchSIGTSTP :: "shell \<Rightarrow> shell" where
  "catchSIGTSTP st =
     (let st1 = emit [Waitpid (fgPidForSignal st) True] st in
      if \<not> foregroundOnly st1 then
        emit [WriteFd STDOUT_NUM
                (take (if fgPidForSignal st1 \<noteq> - 5 then 51 else 52) enter_msg)]
          (st1\<lparr>foregroundOnly := True\<rparr>)
      else
        emit [WriteFd STDOUT_NUM
                (take (if fgPidForSignal st1 \<noteq> - 5 then 31 else 32) exit_msg)]
          (st1\<lparr>foregroundOnly := False\<rparr>))"

subsection \<open>Tokens (\<^verbatim>\<open>strtok_r\<close> with the delimiter string \<^verbatim>\<open>" "\<close>)\<close>

text \<open>
  Each call of \<^verbatim>\<open>strtok_r\<close> skips the spaces at the front of what is left of the line and
  returns the characters up to the next space, or NULL when nothing but spaces is left.
  \<open>strtok_all\<close> is the sequence of the tokens that the successive calls return. The parser
  writes into the current token only, so the later calls are not affected by it.
\<close>

definition is_delim :: "char \<Rightarrow> bool" where
  "is_delim c = (c = CHR '' '')"

function strtok_all :: "string \<Rightarrow> string list" where
  "strtok_all s =
     (let s' = dropWhile is_delim s in
      if s' = [] then []
      else takeWhile (\<lambda>c. \<not> is_delim c) s' # strtok_all (dropWhile (\<lambda>c. \<not> is_delim c) s'))"
  by pat_completeness auto
termination
proof (relation "measure length", goal_cases)
  case 1
  show ?case by simp
next
  case (2 s s')
  then obtain c cs where s': "s' = c # cs" and c: "\<not> is_delim c"
    by (metis hd_dropWhile list.exhaust_sel)
  have "length (dropWhile (\<lambda>c. \<not> is_delim c) s') \<le> length cs"
    using s' c by (simp add: length_dropWhile_le)
  moreover have "length s' \<le> length s"
    using 2 by (simp add: length_dropWhile_le)
  ultimately show ?case using s' by simp
qed

declare strtok_all.simps [simp del]

subsection \<open>The parser\<close>

text \<open>
  The variables of \<^verbatim>\<open>main\<close> that \<^verbatim>\<open>parseUserCmd\<close> receives by reference. \<open>cmdargs\<close> is the
  array of \<^verbatim>\<open>char *\<close>: \<open>Some s\<close> is a pointer to a buffer of \<open>MAX_LINE_LENGTH\<close> bytes that
  holds the string \<open>s\<close>, \<open>None\<close> is NULL.
\<close>

record cmd =
  cmdargs :: "string option list"
  cmdArgCount :: nat
  inputfile :: "string option"
  outputfile :: "string option"
  background :: bool

text \<open>
  The \<^verbatim>\<open>for\<close> loop over \<^verbatim>\<open>piece\<close>: the index of the first \<^verbatim>\<open>'$'\<close> that is followed by
  another one, searched from \<open>i\<close> on.
\<close>

function find_dollars :: "string \<Rightarrow> nat \<Rightarrow> nat option" where
  "find_dollars piece i =
     (if i < length piece then
        (if piece ! i = CHR ''$'' \<and> i + 1 < length piece \<and> piece ! (i + 1) = CHR ''$''
         then Some i
         else find_dollars piece (i + 1))
      else None)"
  by pat_completeness auto
termination
  by (relation "measure (\<lambda>(piece, i). length piece - i)") auto

declare find_dollars.simps [simp del]

text \<open>
  At the index found the source writes a NUL into \<open>piece\<close> and prints
  \<^verbatim>\<open>"%s%d"\<close> of \<open>piece\<close> and the process ID into a fresh buffer of \<open>MAX_LINE_LENGTH\<close>
  bytes, then leaves the loop. \<open>None\<close> is \<^verbatim>\<open>expanded == NULL\<close>.
\<close>

definition expand :: "int \<Rightarrow> string \<Rightarrow> fault + string option" where
  "expand parentPid piece =
     (case find_dollars piece 0 of
        None \<Rightarrow> Inr None
      | Some i \<Rightarrow>
          (let expanded = take i piece @ dec_int parentPid in
           if length expanded < MAX_LINE_LENGTH then Inr (Some expanded)
           else Inl BufferOverflow))"

text \<open>\<^verbatim>\<open>strcpy(args[idx], s)\<close>.\<close>

definition strcpy_arg :: "string option list \<Rightarrow> nat \<Rightarrow> string \<Rightarrow> fault + string option list" where
  "strcpy_arg args idx s =
     (if idx < length args then
        (case args ! idx of
           None \<Rightarrow> Inl NullDeref
         | Some _ \<Rightarrow>
             if length s < MAX_LINE_LENGTH then Inr (args[idx := Some s])
             else Inl BufferOverflow)
      else Inl OutOfBounds)"

text \<open>
  \<^verbatim>\<open>piece = strtok_r(NULL, " ", &saveptr); tempStr = malloc(512); strcpy(tempStr, piece);\<close>
  for the token after \<^verbatim>\<open><\<close> or \<^verbatim>\<open>>\<close>: the next token is not tested against NULL.
\<close>

definition redirect_path :: "string list \<Rightarrow> fault + string" where
  "redirect_path rest =
     (case rest of
        [] \<Rightarrow> Inl NullDeref
      | path # _ \<Rightarrow>
          if length path < REDIRECT_PATH_SIZE then Inr path else Inl BufferOverflow)"

text \<open>
  The \<^verbatim>\<open>while (piece)\<close> loop. The first argument list is the current token followed by the
  tokens that \<^verbatim>\<open>strtok_r\<close> will still return; \<open>idx\<close> is the local variable of that name.
\<close>

fun parse_loop :: "int \<Rightarrow> string list \<Rightarrow> nat \<Rightarrow> cmd \<Rightarrow> fault + (nat \<times> cmd)" where
  "parse_loop parentPid [] idx c = Inr (idx, c)"
| "parse_loop parentPid (piece # rest) idx c =
     (if piece = ''<'' then
        (case redirect_path rest of
           Inl f \<Rightarrow> Inl f
         | Inr path \<Rightarrow> parse_loop parentPid (tl rest) idx (c\<lparr>inputfile := Some path\<rparr>))
      else if piece = ''>'' then
        (case redirect_path rest of
           Inl f \<Rightarrow> Inl f
         | Inr path \<Rightarrow> parse_loop parentPid (tl rest) idx (c\<lparr>outputfile := Some path\<rparr>))
      else if piece = ''&'' then
        parse_loop parentPid rest idx (c\<lparr>background := True\<rparr>)
      else
        (case expand parentPid piece of
           Inl f \<Rightarrow> Inl f
         | Inr expanded \<Rightarrow>
             (case strcpy_arg (cmdargs c) idx (case expanded of Some e \<Rightarrow> e | None \<Rightarrow> piece) of
                Inl f \<Rightarrow> Inl f
              | Inr args \<Rightarrow> parse_loop parentPid rest (idx + 1) (c\<lparr>cmdargs := args\<rparr>))))"

text \<open>
  \<^verbatim>\<open>parseUserCmd\<close>: the first token is copied to \<^verbatim>\<open>args[0]\<close> as it is, the loop takes the
  others, and at the end \<^verbatim>\<open>*argCount = idx; free(args[idx]); args[idx] = NULL;\<close>.
  \<open>parentPid\<close> is the value of \<^verbatim>\<open>getpid()\<close>.
\<close>

definition parse_tokens :: "int \<Rightarrow> string list \<Rightarrow> cmd \<Rightarrow> fault + cmd" where
  "parse_tokens parentPid toks c =
     (case (case toks of
              [] \<Rightarrow> Inr (0, c)
            | piece # rest \<Rightarrow>
                (case strcpy_arg (cmdargs c) 0 piece of
                   Inl f \<Rightarrow> Inl f
                 | Inr args \<Rightarrow> parse_loop parentPid rest 1 (c\<lparr>cmdargs := args\<rparr>))) of
        Inl f \<Rightarrow> Inl f
      | Inr (idx, c') \<Rightarrow>
          if idx < length (cmdargs c') then
            Inr (c'\<lparr>cmdArgCount := idx, cmdargs := (cmdargs c')[idx := None]\<rparr>)
          else Inl OutOfBounds)"

definition parseUserCmd :: "int \<Rightarrow> string \<Rightarrow> cmd \<Rightarrow> fault + cmd" where
  "parseUserCmd parentPid userline c = parse_tokens parentPid (strtok_all userline) c"

text \<open>
  The variables as \<^verbatim>\<open>main\<close> has them when it calls the parser: every slot of the array
  points to a buffer, the redirect paths are NULL, the flag is false.
\<close>

definition fresh_cmd :: "nat \<Rightarrow> cmd" where
  "fresh_cmd n = \<lparr> cmdargs = replicate n (Some []), cmdArgCount = 0,
                   inputfile = None, outputfile = None, background = False \<rparr>"

subsection \<open>The child after \<^verbatim>\<open>fork\<close>\<close>

text \<open>
  What the operating system answers is a parameter: whether \<^verbatim>\<open>open\<close> of a path in a mode
  succeeds, and whether \<^verbatim>\<open>execvp\<close> finds the program.
\<close>

record os =
  opens :: "string \<Rightarrow> open_mode \<Rightarrow> bool"
  execs :: "string \<Rightarrow> bool"

text \<open>
  \<^verbatim>\<open>openInpFile\<close>/\<^verbatim>\<open>openOutFile\<close> followed by \<^verbatim>\<open>redirectStdin\<close>/\<^verbatim>\<open>redirectStdout\<close>:
  a failed \<^verbatim>\<open>open\<close> ends the child with \<^verbatim>\<open>exit(1)\<close> (for the null device through the
  \<^verbatim>\<open>dup2\<close> of the descriptor \<^verbatim>\<open>-1\<close>).
\<close>

definition open_onto :: "os \<Rightarrow> string \<Rightarrow> open_mode \<Rightarrow> nat \<Rightarrow> fault + event list" where
  "open_onto sys path mode fd =
     (if opens sys path mode then Inr [OpenDup path mode fd] else Inl (ProcessExit 1))"

definition redirectStdIO :: "os \<Rightarrow> string option \<Rightarrow> string option \<Rightarrow> bool \<Rightarrow> fault + event list" where
  "redirectStdIO sys newStdin newStdout bgFlag =
     (case (case newStdin of
              Some path \<Rightarrow> open_onto sys path O_RDONLY STDIN_NUM
            | None \<Rightarrow>
                if bgFlag then open_onto sys ''/dev/null'' O_RDONLY STDIN_NUM else Inr []) of
        Inl f \<Rightarrow> Inl f
      | Inr es1 \<Rightarrow>
          (case (case newStdout of
                   Some path \<Rightarrow> open_onto sys path O_WRONLY_CREAT_TRUNC STDOUT_NUM
                 | None \<Rightarrow>
                     if bgFlag then open_onto sys ''/dev/null'' O_WRONLY STDOUT_NUM else Inr []) of
             Inl f \<Rightarrow> Inl f
           | Inr es2 \<Rightarrow> Inr (es1 @ es2)))"

text \<open>
  \<^verbatim>\<open>execute\<close>: the argument vector is the array up to its first NULL. A child whose
  \<^verbatim>\<open>execvp\<close> fails leaves with \<^verbatim>\<open>exit(1)\<close>.
\<close>

definition argv :: "string option list \<Rightarrow> string list" where
  "argv args = map the (takeWhile (\<lambda>a. a \<noteq> None) args)"

text \<open>
  \<^verbatim>\<open>case 0\<close> of the switch in \<^verbatim>\<open>main\<close>. The child is a copy of the shell, so it has the
  parsed command and the value of \<open>foregroundOnly\<close> at hand; the source passes \<open>background\<close>
  to \<^verbatim>\<open>redirectStdIO\<close> and tests \<^verbatim>\<open>!background\<close> before restoring SIGINT. \<open>Inr\<close> is the list
  of calls after which the program image is replaced.
\<close>

definition child_branch :: "os \<Rightarrow> shell \<Rightarrow> cmd \<Rightarrow> fault + event list" where
  "child_branch sys st c =
     (case redirectStdIO sys (inputfile c) (outputfile c) (background c) of
        Inl f \<Rightarrow> Inl f
      | Inr es \<Rightarrow>
          (let sigs = (if \<not> background c then [Sigaction SIGINT SIG_DFL] else [])
                        @ [Sigaction SIGTSTP SIG_IGN] in
           case cmdargs c ! CMD_NAME of
             None \<Rightarrow> Inl NullDeref
           | Some prog \<Rightarrow>
               if execs sys prog then Inr (es @ sigs @ [Execvp prog (argv (cmdargs c))])
               else Inl (ProcessExit 1)))"

subsection \<open>The parent after \<^verbatim>\<open>fork\<close>\<close>

text \<open>
  The \<^verbatim>\<open>default\<close> case of the switch. \<open>wres\<close> is what the blocking \<^verbatim>\<open>waitpid\<close> stores in
  \<open>childExitMethod\<close>: \<open>Some s\<close> when it succeeds, \<open>None\<close> when it fails and leaves the
  variable as it was. The write \<^verbatim>\<open>backgroundPids[backgroundPidCount] = forkPid\<close> is not
  guarded in the source; past the end of the array it is a fault.
\<close>

definition parent_branch :: "wait_macros \<Rightarrow> int \<Rightarrow> bool \<Rightarrow> int option \<Rightarrow> shell \<Rightarrow> fault + shell" where
  "parent_branch m forkPid bg wres st =
     (case
        (if \<not> bg \<or> foregroundOnly st then
           (let st1 = st\<lparr>fgPidForSignal := forkPid\<rparr>;
                st2 = emit [Waitpid forkPid True]
                        (st1\<lparr>childExitMethod :=
                               (case wres of Some s \<Rightarrow> s | None \<Rightarrow> childExitMethod st1)\<rparr>);
                st3 = st2\<lparr>fgPidForSignal := - 5\<rparr>
            in if WIFSIGNALED m (childExitMethod st3)
               then Inr (emit (reportExitStatus m (childExitMethod st3)) st3)
               else Inr st3)
         else if backgroundPidCount st < length (backgroundPids st) then
           Inr (emit [Printf (''PID of new background process: '' @ dec_int forkPid @ [CHR 0x0A])]
                  (st\<lparr>backgroundPids := (backgroundPids st)[backgroundPidCount st := forkPid],
                      backgroundPidCount := backgroundPidCount st + 1\<rparr>))
         else Inl OutOfBounds) of
        Inl f \<Rightarrow> Inl f
      | Inr st' \<Rightarrow> Inr (emit [Dup2Saved STDIN_NUM, Dup2Saved STDOUT_NUM] st'))"

text \<open>
  The switch on the value of \<^verbatim>\<open>fork()\<close> as the shell process sees it: \<^verbatim>\<open>-1\<close> ends the
  shell with \<^verbatim>\<open>exit(-2)\<close>; any other value it can see is the child's process ID (the value
  0 is seen by the child only, which runs \<open>child_branch\<close>).
\<close>

definition dispatch_external :: "wait_macros \<Rightarrow> int \<Rightarrow> bool \<Rightarrow> int option \<Rightarrow> shell \<Rightarrow> fault + shell" where
  "dispatch_external m forkPid bg wres st =
     (if forkPid = - 1 then Inl (ProcessExit (- 2))
      else parent_branch m forkPid bg wres st)"

subsection \<open>The reaper at the top of the prompt loop\<close>

text \<open>
  The inner loop \<^verbatim>\<open>for (j = idx; j < backgroundPidCount; j++) backgroundPids[j] = backgroundPids[j + 1];\<close>
\<close>

function slide :: "int list \<Rightarrow> nat \<Rightarrow> nat \<Rightarrow> fault + int list" where
  "slide pids j n =
     (if j < n then
        (if j + 1 < length pids then slide (pids[j := pids ! (j + 1)]) (j + 1) n
         else Inl OutOfBounds)
      else Inr pids)"
  by pat_completeness auto
termination
  by (relation "measure (\<lambda>(pids, j, n). n - j)") auto

declare slide.simps [simp del]

text \<open>
  The outer loop. \<open>wnohang p\<close> is the answer of \<^verbatim>\<open>waitpid(p, &bgChildExitMethod, WNOHANG)\<close>
  during this sweep: the value returned (0 while \<open>p\<close> is running) and the status stored, if
  any. After a removal the source decrements the count and still increments \<open>idx\<close>.
\<close>

function reap_loop :: "wait_macros \<Rightarrow> (int \<Rightarrow> int \<times> int option) \<Rightarrow> nat \<Rightarrow> shell \<Rightarrow> fault + shell" where
  "reap_loop m wnohang idx st =
     (if idx < backgroundPidCount st then
        (if idx < length (backgroundPids st) then
           (let actualBgPid = fst (wnohang (backgroundPids st ! idx));
                st1 = emit [Waitpid (backgroundPids st ! idx) False]
                        (st\<lparr>bgChildExitMethod :=
                              (case snd (wnohang (backgroundPids st ! idx)) of
                                 Some s \<Rightarrow> s | None \<Rightarrow> bgChildExitMethod st)\<rparr>)
            in if actualBgPid \<noteq> 0 then
                 (case slide (backgroundPids st1) idx (backgroundPidCount st1) of
                    Inl f \<Rightarrow> Inl f
                  | Inr pids \<Rightarrow>
                      reap_loop m wnohang (idx + 1)
                        ((emit (Printf (dec_int actualBgPid @ '' has been reaped.'' @ [CHR 0x0A])
                                  # reportExitStatus m (bgChildExitMethod st1)) st1)
                           \<lparr>backgroundPids := pids,
                            backgroundPidCount := backgroundPidCount st1 - 1\<rparr>))
               else reap_loop m wnohang (idx + 1) st1)
         else Inl OutOfBounds)
      else Inr st)"
  by pat_completeness auto
termination
  by (relation "measure (\<lambda>(m, wnohang, idx, st). backgroundPidCount st - idx)")
     (auto simp: emit_def)

declare reap_loop.simps [simp del]

definition reap :: "wait_macros \<Rightarrow> (int \<Rightarrow> int \<times> int option) \<Rightarrow> shell \<Rightarrow> fault + shell" where
  "reap m wnohang st = reap_loop m wnohang 0 st"

subsection \<open>The operating system's side of a wait\<close>

text \<open>
  The largest signal number of Linux: a child is terminated by one of the signals 1 to 64,
  so these are the values of \<^verbatim>\<open>WTERMSIG\<close> in a status that \<^verbatim>\<open>waitpid\<close> stores.
\<close>

definition SIGRTMAX :: int where
  "SIGRTMAX = 64"



subsection \<open>What the parser leaves in the argument array\<close>

text \<open>
  Three functions that describe the result of \<open>parse_tokens\<close>, read off its branches: the
  string that the last branch of the loop stores for a token, the tokens that reach that
  branch, and the strings stored for a whole line (the first token is copied as it is).
\<close>

definition stored_string :: "int \<Rightarrow> string \<Rightarrow> string" where
  "stored_string parentPid piece =
     (case find_dollars piece 0 of
        None \<Rightarrow> piece
      | Some i \<Rightarrow> take i piece @ dec_int parentPid)"

fun ordinary_tokens :: "string list \<Rightarrow> string list" where
  "ordinary_tokens [] = []"
| "ordinary_tokens (piece # rest) =
     (if piece = ''<'' \<or> piece = ''>'' then ordinary_tokens (tl rest)
      else if piece = ''&'' then ordinary_tokens rest
      else piece # ordinary_tokens rest)"

definition arg_strings :: "int \<Rightarrow> string list \<Rightarrow> string list" where
  "arg_strings parentPid toks =
     (case toks of
        [] \<Rightarrow> []
      | piece # rest \<Rightarrow> piece # map (stored_string parentPid) (ordinary_tokens rest))"

text \<open>
  No \<^verbatim>\<open><\<close> or \<^verbatim>\<open>>\<close> without a token after it, and every such token fits the buffer
  of \<open>REDIRECT_PATH_SIZE\<close> bytes.
\<close>

fun redirects_complete :: "string list \<Rightarrow> bool" where
  "redirects_complete [] = True"
| "redirects_complete (piece # rest) =
     (if piece = ''<'' \<or> piece = ''>''
      then rest \<noteq> [] \<and> length (hd rest) < REDIRECT_PATH_SIZE \<and> redirects_complete (tl rest)
      else redirects_complete rest)"


subsection \<open>Sample inputs\<close>

text \<open>
  A shell in normal mode with no foreground child and \<open>n\<close> registered background
  processes, and an operating system where every \<^verbatim>\<open>open\<close> and \<^verbatim>\<open>execvp\<close> succeeds.
\<close>

definition demo_shell :: "nat \<Rightarrow> shell" where
  "demo_shell n = \<lparr> foregroundOnly = False, fgPidForSignal = - 5, childExitMethod = - 5,
                    backgroundPids = replicate BG_PIDS_SIZE 0, backgroundPidCount = n,
                    bgChildExitMethod = - 5, trace = [] \<rparr>"

definition demo_os :: os where
  "demo_os = \<lparr> opens = (\<lambda>path mode. True), execs = (\<lambda>prog. True) \<rparr>"

section \<open>Properties\<close>

subsection \<open>Lemmas about the parser\<close>

lemma strcpy_arg_Inr:
  "strcpy_arg args idx s = Inr args' \<Longrightarrow>
     idx < length args \<and> args' = args[idx := Some s] \<and> length s < MAX_LINE_LENGTH"
  by (auto simp: strcpy_arg_def split: if_splits option.splits)

lemma expand_Inr:
  "expand parentPid piece = Inr e \<Longrightarrow>
     (case e of Some x \<Rightarrow> x | None \<Rightarrow> piece) = stored_string parentPid piece"
  by (auto simp: expand_def stored_string_def Let_def split: option.splits if_splits)

lemma take_Suc_update:
  "idx < length args \<Longrightarrow> take (idx + 1) (args[idx := v]) = take idx args @ [v]"
  by (simp add: take_Suc_conv_app_nth)

lemma parse_loop_args:
  "parse_loop parentPid toks idx c = Inr (idx', c') \<Longrightarrow> idx \<le> length (cmdargs c) \<Longrightarrow>
     length (cmdargs c') = length (cmdargs c) \<and> idx' \<le> length (cmdargs c')
     \<and> take idx' (cmdargs c') =
         take idx (cmdargs c) @ map (\<lambda>t. Some (stored_string parentPid t)) (ordinary_tokens toks)"
proof (induction parentPid toks idx c rule: parse_loop.induct)
  case (1 parentPid idx c)
  then show ?case by simp
next
  case (2 parentPid piece rest idx c)
  show ?case
  proof (cases "piece = ''<''")
    case True
    with "2.prems" obtain path where p: "redirect_path rest = Inr path"
      and run: "parse_loop parentPid (tl rest) idx (c\<lparr>inputfile := Some path\<rparr>) = Inr (idx', c')"
      by (auto split: sum.splits)
    from "2.IH"(1) [OF True p run] "2.prems"(2) True show ?thesis by simp
  next
    case lt: False
    show ?thesis
    proof (cases "piece = ''>''")
      case True
      with lt "2.prems" obtain path where p: "redirect_path rest = Inr path"
        and run: "parse_loop parentPid (tl rest) idx (c\<lparr>outputfile := Some path\<rparr>) = Inr (idx', c')"
        by (auto split: sum.splits)
      from "2.IH"(2) [OF lt True p run] "2.prems"(2) lt True show ?thesis by simp
    next
      case gt: False
      show ?thesis
      proof (cases "piece = ''&''")
        case True
        with lt gt "2.prems" have
          run: "parse_loop parentPid rest idx (c\<lparr>background := True\<rparr>) = Inr (idx', c')"
          by simp
        from "2.IH"(3) [OF lt gt True run] "2.prems"(2) lt gt True show ?thesis by simp
      next
        case amp: False
        with lt gt "2.prems" obtain e args where e: "expand parentPid piece = Inr e"
          and cp: "strcpy_arg (cmdargs c) idx (case e of Some x \<Rightarrow> x | None \<Rightarrow> piece) = Inr args"
          and run: "parse_loop parentPid rest (idx + 1) (c\<lparr>cmdargs := args\<rparr>) = Inr (idx', c')"
          by (auto split: sum.splits)
        from strcpy_arg_Inr [OF cp] expand_Inr [OF e]
        have idx: "idx < length (cmdargs c)"
          and args: "args = (cmdargs c)[idx := Some (stored_string parentPid piece)]"
          by simp_all
        have "idx + 1 \<le> length (cmdargs (c\<lparr>cmdargs := args\<rparr>))"
          using idx args by simp
        from "2.IH"(4) [OF lt gt amp e cp run this]
        show ?thesis
          using idx args lt gt amp by (simp add: take_Suc_update del: One_nat_def)
      qed
    qed
  qed
qed

lemma takeWhile_Some_None:
  "takeWhile (\<lambda>a. a \<noteq> None) (map Some xs @ None # rest) = map Some xs"
  by (induction xs) simp_all

lemma argv_terminated:
  assumes "n < length args" and "args ! n = None" and "take n args = map Some xs"
  shows "argv args = xs"
proof -
  have "args = take n args @ args ! n # drop (Suc n) args"
    using assms(1) by (simp add: id_take_nth_drop)
  then have "args = map Some xs @ None # drop (Suc n) args"
    using assms(2,3) by simp
  then have "takeWhile (\<lambda>a. a \<noteq> None) args = map Some xs"
    using takeWhile_Some_None [of xs "drop (Suc n) args"] by simp
  then show ?thesis by (simp add: argv_def comp_def)
qed

lemma strtok_all_Nil: "strtok_all s = [] \<longleftrightarrow> (\<forall>ch \<in> set s. ch = CHR '' '')"
  by (subst strtok_all.simps) (auto simp: Let_def dropWhile_eq_Nil_conv is_delim_def)

lemma redirect_path_complete:
  "rest \<noteq> [] \<Longrightarrow> length (hd rest) < REDIRECT_PATH_SIZE \<Longrightarrow> redirect_path rest = Inr (hd rest)"
  by (cases rest) (simp_all add: redirect_path_def)

lemma expand_fits:
  "length (stored_string parentPid piece) < MAX_LINE_LENGTH \<Longrightarrow>
     \<exists>e. expand parentPid piece = Inr e"
  by (auto simp: expand_def stored_string_def Let_def split: option.splits)

lemma strcpy_arg_fits:
  "idx < length args \<Longrightarrow> args ! idx \<noteq> None \<Longrightarrow> length s < MAX_LINE_LENGTH \<Longrightarrow>
     strcpy_arg args idx s = Inr (args[idx := Some s])"
  by (auto simp: strcpy_arg_def split: option.splits)

lemma parse_loop_returns:
  "redirects_complete toks \<Longrightarrow>
   (\<forall>t \<in> set (ordinary_tokens toks). length (stored_string parentPid t) < MAX_LINE_LENGTH) \<Longrightarrow>
   idx + length (ordinary_tokens toks) \<le> length (cmdargs c) \<Longrightarrow>
   (\<forall>i. idx \<le> i \<and> i < length (cmdargs c) \<longrightarrow> cmdargs c ! i \<noteq> None) \<Longrightarrow>
   \<exists>r. parse_loop parentPid toks idx c = Inr r"
proof (induction parentPid toks idx c rule: parse_loop.induct)
  case (1 parentPid idx c)
  then show ?case by simp
next
  case (2 parentPid piece rest idx c)
  consider (inp) "piece = ''<''" | (outp) "piece \<noteq> ''<''" "piece = ''>''"
    | (amp) "piece \<noteq> ''<''" "piece \<noteq> ''>''" "piece = ''&''"
    | (arg) "piece \<noteq> ''<''" "piece \<noteq> ''>''" "piece \<noteq> ''&''"
    by blast
  then show ?case
  proof cases
    case inp
    with "2.prems"(1) have p: "redirect_path rest = Inr (hd rest)"
      by (simp add: redirect_path_complete)
    have "\<exists>r. parse_loop parentPid (tl rest) idx (c\<lparr>inputfile := Some (hd rest)\<rparr>) = Inr r"
      using "2.IH"(1) [OF inp p] "2.prems" inp by simp
    then show ?thesis using inp p by simp
  next
    case outp
    with "2.prems"(1) have p: "redirect_path rest = Inr (hd rest)"
      by (simp add: redirect_path_complete)
    have "\<exists>r. parse_loop parentPid (tl rest) idx (c\<lparr>outputfile := Some (hd rest)\<rparr>) = Inr r"
      using "2.IH"(2) [OF outp p] "2.prems" outp by simp
    then show ?thesis using outp p by simp
  next
    case amp
    have "\<exists>r. parse_loop parentPid rest idx (c\<lparr>background := True\<rparr>) = Inr r"
      using "2.IH"(3) [OF amp] "2.prems" amp by simp
    then show ?thesis using amp by simp
  next
    case arg
    from "2.prems"(2) arg have fits: "length (stored_string parentPid piece) < MAX_LINE_LENGTH"
      by simp
    then obtain e where e: "expand parentPid piece = Inr e"
      using expand_fits by blast
    from "2.prems"(3) arg have idx: "idx < length (cmdargs c)" by simp
    with "2.prems"(4) have slot: "cmdargs c ! idx \<noteq> None" by simp
    let ?s = "case e of Some x \<Rightarrow> x | None \<Rightarrow> piece"
    have s: "?s = stored_string parentPid piece" by (rule expand_Inr [OF e])
    have cp: "strcpy_arg (cmdargs c) idx ?s = Inr ((cmdargs c)[idx := Some ?s])"
      using strcpy_arg_fits [OF idx slot] fits s by simp
    have "\<exists>r. parse_loop parentPid rest (idx + 1) (c\<lparr>cmdargs := (cmdargs c)[idx := Some ?s]\<rparr>) = Inr r"
      using "2.IH"(4) [OF arg e cp] "2.prems" arg by simp
    then show ?thesis using arg e cp by simp
  qed
qed

lemma parseUserCmd_returns:
  assumes slots: "\<forall>i < length (cmdargs c). cmdargs c ! i \<noteq> None"
    and room: "length (arg_strings parentPid (strtok_all userline)) < length (cmdargs c)"
    and fits: "\<forall>t \<in> set (arg_strings parentPid (strtok_all userline)). length t < MAX_LINE_LENGTH"
    and complete: "redirects_complete (tl (strtok_all userline))"
  shows "\<exists>c'. parseUserCmd parentPid userline c = Inr c'"
proof (cases "strtok_all userline")
  case Nil
  with room show ?thesis
    by (simp add: parseUserCmd_def parse_tokens_def arg_strings_def)
next
  case (Cons piece rest)
  have pos: "0 < length (cmdargs c)"
    using room by (cases "cmdargs c") simp_all
  have "length piece < MAX_LINE_LENGTH"
    using fits Cons by (simp add: arg_strings_def)
  with pos slots have first: "strcpy_arg (cmdargs c) 0 piece = Inr ((cmdargs c)[0 := Some piece])"
    by (simp add: strcpy_arg_fits)
  let ?c = "c\<lparr>cmdargs := (cmdargs c)[0 := Some piece]\<rparr>"
  have "\<exists>r. parse_loop parentPid rest 1 ?c = Inr r"
  proof (rule parse_loop_returns)
    show "redirects_complete rest" using complete Cons by simp
    show "\<forall>t \<in> set (ordinary_tokens rest). length (stored_string parentPid t) < MAX_LINE_LENGTH"
      using fits Cons by (simp add: arg_strings_def)
    show "1 + length (ordinary_tokens rest) \<le> length (cmdargs ?c)"
      using room Cons by (simp add: arg_strings_def)
    show "\<forall>i. 1 \<le> i \<and> i < length (cmdargs ?c) \<longrightarrow> cmdargs ?c ! i \<noteq> None"
      using slots by simp
  qed
  then obtain idx' c' where run: "parse_loop parentPid rest 1 ?c = Inr (idx', c')"
    by fastforce
  have one: "1 \<le> length (cmdargs ?c)"
    using pos by (simp add: Suc_le_eq)
  from parse_loop_args [OF run one]
  have len: "length (cmdargs c') = length (cmdargs c)"
    and tk: "take idx' (cmdargs c') =
          take 1 (cmdargs ?c) @ map (\<lambda>t. Some (stored_string parentPid t)) (ordinary_tokens rest)"
    and le: "idx' \<le> length (cmdargs c')"
    by simp_all
  have "length (take idx' (cmdargs c')) = idx'"
    using le by simp
  moreover have "length (take 1 (cmdargs ?c)) = 1"
    using one by simp
  ultimately have "idx' = 1 + length (ordinary_tokens rest)"
    by (simp only: tk length_append length_map)
  then have "idx' < length (cmdargs c')"
    using room Cons len by (simp add: arg_strings_def)
  then show ?thesis
    using Cons first run by (simp add: parseUserCmd_def parse_tokens_def)
qed

lemma linux_wait_exclusive: "WIFSIGNALED linux_wait s \<Longrightarrow> \<not> WIFEXITED linux_wait s"
  by (auto simp: linux_wait_def signed_char_def)

lemma parent_blocks_on_background_flag:
  "map_sum id trace
     (parent_branch linux_wait 4300 True (Some 0) ((demo_shell 0)\<lparr>foregroundOnly := True\<rparr>))
     = Inr [Waitpid 4300 True, Dup2Saved 0, Dup2Saved 1]"
  by (simp add: parent_branch_def emit_def Let_def linux_wait_def signed_char_def demo_shell_def
        STDIN_NUM_def STDOUT_NUM_def)

subsection \<open>Expansion of \<^verbatim>\<open>$$\<close>\<close>

text \<open>
  C1. In every ordinary argument token that contains \<^verbatim>\<open>$$\<close>, the first token included,
  every occurrence of \<^verbatim>\<open>$$\<close> is replaced by the decimal process ID of the shell and nothing
  else in the token changes. The parser does otherwise: with process ID 4242 the token
  \<^verbatim>\<open>a$$b\<close> is stored as \<^verbatim>\<open>a4242\<close> (the text after the first \<^verbatim>\<open>$$\<close> is lost), \<^verbatim>\<open>$$$$\<close> as
  \<^verbatim>\<open>4242\<close>, and a first token \<^verbatim>\<open>$$\<close> is stored as it is.
\<close>

theorem expansion_truncates_token:
  "map_sum id (\<lambda>c. argv (cmdargs c))
     (parseUserCmd 4242 ''echo a$$b $$$$'' (fresh_cmd MAX_LINE_ARGS))
     = Inr [''echo'', ''a4242'', ''4242'']
   \<and> map_sum id (\<lambda>c. argv (cmdargs c))
     (parseUserCmd 4242 ''$$ x'' (fresh_cmd MAX_LINE_ARGS))
     = Inr [''$$'', ''x'']"
  by code_simp

subsection \<open>The child of a background command in foreground-only mode\<close>

text \<open>
  C2. A command dispatched in foreground-only mode with its background flag set is
  configured as a foreground child: standard input comes from the null device only when
  the flag is set and the mode is normal, and SIGINT gets its default handling back exactly
  when the command effectively runs in the foreground. The child branch looks at the flag
  alone: for \<^verbatim>\<open>sleep 5 &\<close> in foreground-only mode it redirects both standard streams to
  the null device and leaves SIGINT ignored, although the parent branch waits for that
  child with a blocking \<^verbatim>\<open>waitpid\<close> (lemma \<open>parent_blocks_on_background_flag\<close>).
\<close>

theorem child_ignores_foreground_only:
  "map_sum id (child_branch demo_os ((demo_shell 0)\<lparr>foregroundOnly := True\<rparr>))
     (parseUserCmd 4242 ''sleep 5 &'' (fresh_cmd MAX_LINE_ARGS))
     = Inr (Inr [OpenDup ''/dev/null'' O_RDONLY 0, OpenDup ''/dev/null'' O_WRONLY 1,
                 Sigaction SIGTSTP SIG_IGN, Execvp ''sleep'' [''sleep'', ''5'']])"
  by code_simp

subsection \<open>The reaper sweep\<close>

text \<open>
  C3. A sweep gives every registered process ID a non-blocking status check in registry
  order, reports and removes each one found terminated, and keeps the order of the rest;
  two consecutive registered processes that have both terminated are both reaped in the
  same sweep. The loop does otherwise: with the registry 10, 11 and both processes
  terminated, the sweep checks and removes 10 only; 11 moves to the slot just visited, is
  never checked and stays registered.
\<close>

theorem sweep_skips_after_removal:
  "map_sum id (\<lambda>st. (take (backgroundPidCount st) (backgroundPids st), trace st))
     (reap linux_wait (\<lambda>p. (p, Some 0))
        ((demo_shell 2)\<lparr>backgroundPids := (replicate BG_PIDS_SIZE 0)[0 := 10, 1 := 11]\<rparr>))
     = Inr ([11],
            [Waitpid 10 False,
             Printf (''10 has been reaped.'' @ [CHR 0x0A]),
             Printf (''Exit Status: 0'' @ [CHR 0x0A])])"
  by code_simp

subsection \<open>A redirect operator with no path\<close>

text \<open>
  C4. When \<^verbatim>\<open><\<close> or \<^verbatim>\<open>>\<close> is the last token of the line, parsing reports a parse failure,
  the command is not dispatched, the loop goes on, and the parser neither crashes nor goes
  on with a null path. The parser does otherwise: for \<^verbatim>\<open>cat <\<close> and \<^verbatim>\<open>ls >\<close> it hands the
  NULL that \<^verbatim>\<open>strtok_r\<close> returns to \<^verbatim>\<open>strcpy\<close>.
\<close>

theorem trailing_redirect_null_deref:
  "parseUserCmd 4242 ''cat <'' (fresh_cmd MAX_LINE_ARGS) = Inl NullDeref
   \<and> parseUserCmd 4242 ''ls >'' (fresh_cmd MAX_LINE_ARGS) = Inl NullDeref"
  by code_simp

subsection \<open>The mode-toggle handler\<close>

text \<open>
  C5, as the code has it. Each run of the handler first issues one blocking
  \<^verbatim>\<open>waitpid\<close> on the value of \<open>fgPidForSignal\<close> (the foreground child, or \<^verbatim>\<open>-5\<close> when there
  is none); after that its only effects are to flip \<open>foregroundOnly\<close> and to write the
  notification with \<^verbatim>\<open>write\<close> to descriptor 1. Every other variable of the shell keeps
  its value: the state after the handler is the state before it with the flag negated and
  these two calls appended.
\<close>

theorem handler_waits_then_toggles:
  "catchSIGTSTP st =
     st\<lparr> foregroundOnly := \<not> foregroundOnly st,
         trace := trace st @
           [Waitpid (fgPidForSignal st) True,
            WriteFd STDOUT_NUM
              (if foregroundOnly st
               then take (if fgPidForSignal st = - 5 then 32 else 31) exit_msg
               else take (if fgPidForSignal st = - 5 then 52 else 51) enter_msg)] \<rparr>"
  by (simp add: catchSIGTSTP_def emit_def Let_def)

text \<open>
  C5 as stated (the handler never performs a blocking wait) fails: delivered while the
  foreground child 1234 runs, the handler calls \<^verbatim>\<open>waitpid(1234, &exitMeth, 0)\<close> before
  it does anything else.
\<close>

theorem handler_blocking_wait_counterexample:
  "trace (catchSIGTSTP ((demo_shell 0)\<lparr>fgPidForSignal := 1234\<rparr>)) =
     [Waitpid 1234 True,
      WriteFd 1 (CHR 0x0A # ''Entering foreground only mode. (& is now ignored)'' @ [CHR 0x0A])]"
  by (simp add: catchSIGTSTP_def emit_def Let_def demo_shell_def enter_msg_def STDOUT_NUM_def)

text \<open>
  C8. Two consecutive deliveries of the mode-toggle signal return \<open>foregroundOnly\<close> to its
  original value, whatever that value is. (All signals are blocked while the handler runs,
  so the second run starts after the first has finished.)
\<close>

theorem toggle_twice_restores_mode:
  "foregroundOnly (catchSIGTSTP (catchSIGTSTP st)) = foregroundOnly st"
  by (simp add: catchSIGTSTP_def emit_def Let_def)

subsection \<open>Dispatch in foreground-only mode\<close>

text \<open>
  C6. For every external command dispatched while the mode is foreground-only (the fork
  having succeeded), whatever its background flag, the parent issues the blocking
  \<^verbatim>\<open>waitpid\<close> on that child as its first call and the registry and its count stay as
  they were.
\<close>

theorem foreground_only_waits:
  assumes "foregroundOnly st" and "forkPid \<noteq> - 1"
  shows "\<exists>st' es. dispatch_external m forkPid bg wres st = Inr st'
           \<and> trace st' = trace st @ Waitpid forkPid True # es
           \<and> backgroundPids st' = backgroundPids st
           \<and> backgroundPidCount st' = backgroundPidCount st"
  using assms by (simp add: dispatch_external_def parent_branch_def emit_def Let_def)

theorem foreground_only_waits_witness:
  "foregroundOnly ((demo_shell 3)\<lparr>foregroundOnly := True\<rparr>) \<and> (4300 :: int) \<noteq> - 1
   \<and> (\<exists>st' es.
         dispatch_external linux_wait 4300 True (Some 0) ((demo_shell 3)\<lparr>foregroundOnly := True\<rparr>)
           = Inr st'
         \<and> trace st' = trace ((demo_shell 3)\<lparr>foregroundOnly := True\<rparr>) @ Waitpid 4300 True # es
         \<and> backgroundPids st' = backgroundPids ((demo_shell 3)\<lparr>foregroundOnly := True\<rparr>)
         \<and> backgroundPidCount st' = 3)"
  using foreground_only_waits
          [of "(demo_shell 3)\<lparr>foregroundOnly := True\<rparr>" 4300 linux_wait True "Some 0"]
  by (simp add: demo_shell_def)

subsection \<open>Reporting a wait status\<close>




lemma real_status_reported:
  "WIFEXITED linux_wait s \<or> (1 \<le> WTERMSIG linux_wait s \<and> WTERMSIG linux_wait s \<le> SIGRTMAX)
    \<Longrightarrow> reportExitStatus linux_wait s \<noteq> []"
  by (auto simp: reportExitStatus_def linux_wait_def signed_char_def Let_def SIGRTMAX_def)

subsection \<open>Registering a background process\<close>

text \<open>
  C9. The registry is an array of 100 process IDs and the insertion is unguarded: for a
  command dispatched as background (flag set, mode normal, fork succeeded) the write of the
  new process ID lands inside the array, at the index \<open>backgroundPidCount\<close>, when fewer
  than 100 process IDs are registered, and is a write out of bounds otherwise.
\<close>

theorem register_in_bounds_iff:
  assumes "length (backgroundPids st) = BG_PIDS_SIZE" and "bg" and "\<not> foregroundOnly st"
    and "forkPid \<noteq> - 1"
  shows "BG_PIDS_SIZE = 100
       \<and> (backgroundPidCount st < 100 \<longrightarrow>
            (\<exists>st'. dispatch_external m forkPid bg wres st = Inr st'
               \<and> backgroundPids st' = (backgroundPids st)[backgroundPidCount st := forkPid]
               \<and> backgroundPids st' ! backgroundPidCount st = forkPid
               \<and> backgroundPidCount st' = backgroundPidCount st + 1))
       \<and> (\<not> backgroundPidCount st < 100 \<longrightarrow>
            dispatch_external m forkPid bg wres st = Inl OutOfBounds)"
  using assms by (simp add: dispatch_external_def parent_branch_def emit_def BG_PIDS_SIZE_def)

theorem register_in_bounds_iff_witness:
  "length (backgroundPids (demo_shell 99)) = BG_PIDS_SIZE \<and> True
   \<and> \<not> foregroundOnly (demo_shell 99) \<and> (4300 :: int) \<noteq> - 1
   \<and> backgroundPidCount (demo_shell 99) < 100
   \<and> (\<exists>st'. dispatch_external linux_wait 4300 True None (demo_shell 99) = Inr st'
          \<and> backgroundPids st' ! 99 = 4300 \<and> backgroundPidCount st' = 100)
   \<and> length (backgroundPids (demo_shell 100)) = BG_PIDS_SIZE
   \<and> \<not> foregroundOnly (demo_shell 100)
   \<and> \<not> backgroundPidCount (demo_shell 100) < 100
   \<and> dispatch_external linux_wait 4300 True None (demo_shell 100) = Inl OutOfBounds"
  using register_in_bounds_iff [of "demo_shell 99" True 4300 linux_wait None]
    register_in_bounds_iff [of "demo_shell 100" True 4300 linux_wait None]
  by (auto simp: demo_shell_def BG_PIDS_SIZE_def)

subsection \<open>The argument vector after parsing\<close>

lemma parseUserCmd_post:
  assumes "parseUserCmd parentPid userline c = Inr c'"
  shows "cmdArgCount c' < length (cmdargs c')
     \<and> cmdargs c' ! cmdArgCount c' = None
     \<and> (\<forall>i < cmdArgCount c'. cmdargs c' ! i = Some (arg_strings parentPid (strtok_all userline) ! i))
     \<and> cmdArgCount c' = length (arg_strings parentPid (strtok_all userline))
     \<and> argv (cmdargs c') = arg_strings parentPid (strtok_all userline)
     \<and> ((\<forall>ch \<in> set userline. ch = CHR '' '') \<longrightarrow> cmdArgCount c' = 0 \<and> cmdargs c' ! CMD_NAME = None)"
proof -
  let ?toks = "strtok_all userline"
  obtain idx c1 where
    run: "(case ?toks of [] \<Rightarrow> Inr (0, c)
           | piece # rest \<Rightarrow>
               (case strcpy_arg (cmdargs c) 0 piece of Inl f \<Rightarrow> Inl f
                | Inr args \<Rightarrow> parse_loop parentPid rest 1 (c\<lparr>cmdargs := args\<rparr>))) = Inr (idx, c1)"
    and idx: "idx < length (cmdargs c1)"
    and c': "c' = c1\<lparr>cmdArgCount := idx, cmdargs := (cmdargs c1)[idx := None]\<rparr>"
    using assms
    by (auto simp: parseUserCmd_def parse_tokens_def split: sum.splits if_splits)
  have tk: "take idx (cmdargs c1) = map Some (arg_strings parentPid ?toks)"
  proof (cases ?toks)
    case Nil
    with run show ?thesis by (simp add: arg_strings_def)
  next
    case (Cons piece rest)
    with run obtain args where cp: "strcpy_arg (cmdargs c) 0 piece = Inr args"
      and loop: "parse_loop parentPid rest 1 (c\<lparr>cmdargs := args\<rparr>) = Inr (idx, c1)"
      by (auto split: sum.splits)
    from strcpy_arg_Inr [OF cp] have a: "0 < length (cmdargs c)" "args = (cmdargs c)[0 := Some piece]"
      by simp_all
    then have "take 1 args = [Some piece]"
      by (cases "cmdargs c") simp_all
    with parse_loop_args [OF loop] a Cons show ?thesis
      by (simp add: arg_strings_def)
  qed
  have cnt: "idx = length (arg_strings parentPid ?toks)"
    using arg_cong [OF tk, of length] idx by simp
  have tk': "take idx (cmdargs c') = map Some (arg_strings parentPid ?toks)"
    using tk c' by simp
  have nul: "cmdargs c' ! idx = None" and idx': "idx < length (cmdargs c')"
    using idx c' by simp_all
  have ent: "\<forall>i < idx. cmdargs c' ! i = Some (arg_strings parentPid ?toks ! i)"
  proof (intro allI impI)
    fix i assume i: "i < idx"
    then have "cmdargs c' ! i = take idx (cmdargs c') ! i"
      by (simp only: nth_take)
    also have "\<dots> = map Some (arg_strings parentPid ?toks) ! i"
      by (simp only: tk')
    also have "\<dots> = Some (arg_strings parentPid ?toks ! i)"
    proof (rule nth_map)
      show "i < length (arg_strings parentPid ?toks)"
        using i by (simp only: cnt)
    qed
    finally show "cmdargs c' ! i = Some (arg_strings parentPid ?toks ! i)" .
  qed
  have av: "argv (cmdargs c') = arg_strings parentPid ?toks"
    by (rule argv_terminated [OF idx' nul tk'])
  have blank: "(\<forall>ch \<in> set userline. ch = CHR '' '') \<longrightarrow> idx = 0"
    using cnt by (simp add: strtok_all_Nil [symmetric] arg_strings_def)
  have ac: "cmdArgCount c' = idx"
    using c' by simp
  show ?thesis
    unfolding ac CMD_NAME_def
  proof (intro conjI impI)
    show "idx < length (cmdargs c')" by (rule idx')
    show "cmdargs c' ! idx = None" by (rule nul)
    show "\<forall>i < idx. cmdargs c' ! i = Some (arg_strings parentPid ?toks ! i)" by (rule ent)
    show "idx = length (arg_strings parentPid ?toks)" by (rule cnt)
    show "argv (cmdargs c') = arg_strings parentPid ?toks" by (rule av)
  next
    assume "\<forall>ch \<in> set userline. ch = CHR '' ''"
    with blank show "idx = 0" by simp
  next
    assume "\<forall>ch \<in> set userline. ch = CHR '' ''"
    with blank have "idx = 0" by simp
    with nul show "cmdargs c' ! 0 = None" by simp
  qed
qed

text \<open>
  C10, as the code has it. On an array whose slots all point to buffers, and a line that
  gives fewer argument strings than the array has slots (fewer than 512 for the array of
  \<^verbatim>\<open>main\<close>), each shorter than \<open>MAX_LINE_LENGTH\<close>, with a path shorter than
  \<open>REDIRECT_PATH_SIZE\<close> after every \<^verbatim>\<open><\<close> and \<^verbatim>\<open>>\<close>, the parser returns; and after every call
  that returns, the argument array is NULL-terminated at the index \<open>cmdArgCount\<close>: that
  index is inside the array and holds NULL, the entries below it hold the parsed argument
  strings, so that the vector read by \<^verbatim>\<open>execvp\<close> is exactly those strings; and a blank
  line gives the count 0 with NULL in entry 0.
\<close>

theorem parser_null_terminates:
  "((\<forall>i < length (cmdargs c). cmdargs c ! i \<noteq> None)
      \<and> length (arg_strings parentPid (strtok_all userline)) < length (cmdargs c)
      \<and> (\<forall>t \<in> set (arg_strings parentPid (strtok_all userline)). length t < MAX_LINE_LENGTH)
      \<and> redirects_complete (tl (strtok_all userline))
     \<longrightarrow> (\<exists>c'. parseUserCmd parentPid userline c = Inr c'))
   \<and> (\<forall>c'. parseUserCmd parentPid userline c = Inr c' \<longrightarrow>
        cmdArgCount c' < length (cmdargs c')
        \<and> cmdargs c' ! cmdArgCount c' = None
        \<and> (\<forall>i < cmdArgCount c'.
              cmdargs c' ! i = Some (arg_strings parentPid (strtok_all userline) ! i))
        \<and> cmdArgCount c' = length (arg_strings parentPid (strtok_all userline))
        \<and> argv (cmdargs c') = arg_strings parentPid (strtok_all userline)
        \<and> ((\<forall>ch \<in> set userline. ch = CHR '' '') \<longrightarrow>
               cmdArgCount c' = 0 \<and> cmdargs c' ! CMD_NAME = None))"
proof -
  have returns:
    "(\<forall>i < length (cmdargs c). cmdargs c ! i \<noteq> None)
      \<and> length (arg_strings parentPid (strtok_all userline)) < length (cmdargs c)
      \<and> (\<forall>t \<in> set (arg_strings parentPid (strtok_all userline)). length t < MAX_LINE_LENGTH)
      \<and> redirects_complete (tl (strtok_all userline))
     \<longrightarrow> (\<exists>c'. parseUserCmd parentPid userline c = Inr c')"
  proof
    assume pre: "(\<forall>i < length (cmdargs c). cmdargs c ! i \<noteq> None)
      \<and> length (arg_strings parentPid (strtok_all userline)) < length (cmdargs c)
      \<and> (\<forall>t \<in> set (arg_strings parentPid (strtok_all userline)). length t < MAX_LINE_LENGTH)
      \<and> redirects_complete (tl (strtok_all userline))"
    show "\<exists>c'. parseUserCmd parentPid userline c = Inr c'"
    proof (rule parseUserCmd_returns)
      show "\<forall>i < length (cmdargs c). cmdargs c ! i \<noteq> None"
        using pre by (rule conjunct1)
      show "length (arg_strings parentPid (strtok_all userline)) < length (cmdargs c)"
        using pre by (elim conjE)
      show "\<forall>t \<in> set (arg_strings parentPid (strtok_all userline)). length t < MAX_LINE_LENGTH"
        using pre by (elim conjE)
      show "redirects_complete (tl (strtok_all userline))"
        using pre by (elim conjE)
    qed
  qed
  have post:
    "\<forall>c'. parseUserCmd parentPid userline c = Inr c' \<longrightarrow>
        cmdArgCount c' < length (cmdargs c')
        \<and> cmdargs c' ! cmdArgCount c' = None
        \<and> (\<forall>i < cmdArgCount c'.
              cmdargs c' ! i = Some (arg_strings parentPid (strtok_all userline) ! i))
        \<and> cmdArgCount c' = length (arg_strings parentPid (strtok_all userline))
        \<and> argv (cmdargs c') = arg_strings parentPid (strtok_all userline)
        \<and> ((\<forall>ch \<in> set userline. ch = CHR '' '') \<longrightarrow>
               cmdArgCount c' = 0 \<and> cmdargs c' ! CMD_NAME = None)"
  proof (rule allI, rule impI)
    fix c' assume "parseUserCmd parentPid userline c = Inr c'"
    then show "cmdArgCount c' < length (cmdargs c')
        \<and> cmdargs c' ! cmdArgCount c' = None
        \<and> (\<forall>i < cmdArgCount c'.
              cmdargs c' ! i = Some (arg_strings parentPid (strtok_all userline) ! i))
        \<and> cmdArgCount c' = length (arg_strings parentPid (strtok_all userline))
        \<and> argv (cmdargs c') = arg_strings parentPid (strtok_all userline)
        \<and> ((\<forall>ch \<in> set userline. ch = CHR '' '') \<longrightarrow>
               cmdArgCount c' = 0 \<and> cmdargs c' ! CMD_NAME = None)"
      by (rule parseUserCmd_post)
  qed
  from returns post show ?thesis by (rule conjI)
qed

theorem parser_null_terminates_witness:
  "list_all (\<lambda>a. a \<noteq> None) (cmdargs (fresh_cmd 6))
   \<and> arg_strings 4242 (strtok_all ''ls -l $$ > out &'') = [''ls'', ''-l'', ''4242'']
   \<and> redirects_complete (tl (strtok_all ''ls -l $$ > out &''))
   \<and> parseUserCmd 4242 ''ls -l $$ > out &'' (fresh_cmd 6)
     = Inr \<lparr> cmdargs = [Some ''ls'', Some ''-l'', Some ''4242'', None, Some [], Some []],
             cmdArgCount = 3, inputfile = None, outputfile = Some ''out'', background = True \<rparr>
   \<and> argv [Some ''ls'', Some ''-l'', Some ''4242'', None, Some [], Some []]
       = [''ls'', ''-l'', ''4242'']
   \<and> list_all (\<lambda>ch. ch = CHR '' '') ''  ''
   \<and> parseUserCmd 4242 ''  '' (fresh_cmd 2)
       = Inr \<lparr> cmdargs = [None, Some []], cmdArgCount = 0,
               inputfile = None, outputfile = None, background = False \<rparr>"
proof -
  let ?line = "''ls -l $$ > out &''"
  have e: "arg_strings 4242 (strtok_all ?line) = [''ls'', ''-l'', ''4242'']"
    by code_simp
  have rc: "redirects_complete (tl (strtok_all ?line))"
    by code_simp
  have la: "list_all (\<lambda>a. a \<noteq> None) (cmdargs (fresh_cmd 6))"
    by code_simp
  then have slots: "\<forall>i < length (cmdargs (fresh_cmd 6)). cmdargs (fresh_cmd 6) ! i \<noteq> None"
    by (simp only: list_all_length)
  have pre: "(\<forall>i < length (cmdargs (fresh_cmd 6)). cmdargs (fresh_cmd 6) ! i \<noteq> None)
      \<and> length (arg_strings 4242 (strtok_all ?line)) < length (cmdargs (fresh_cmd 6))
      \<and> (\<forall>t \<in> set (arg_strings 4242 (strtok_all ?line)). length t < MAX_LINE_LENGTH)
      \<and> redirects_complete (tl (strtok_all ?line))"
    using slots rc by (simp add: e fresh_cmd_def MAX_LINE_LENGTH_def)
  have h1: "parseUserCmd 4242 ?line (fresh_cmd 6)
     = Inr \<lparr> cmdargs = [Some ''ls'', Some ''-l'', Some ''4242'', None, Some [], Some []],
             cmdArgCount = 3, inputfile = None, outputfile = Some ''out'', background = True \<rparr>"
    by code_simp
  have h2: "parseUserCmd 4242 ''  '' (fresh_cmd 2)
       = Inr \<lparr> cmdargs = [None, Some []], cmdArgCount = 0,
               inputfile = None, outputfile = None, background = False \<rparr>"
    by code_simp
  from parser_null_terminates [of "fresh_cmd 6" 4242 ?line] pre
  have ret: "\<exists>c'. parseUserCmd 4242 ?line (fresh_cmd 6) = Inr c'"
    by blast
  from parser_null_terminates [of "fresh_cmd 6" 4242 ?line] h1
  have av: "argv [Some ''ls'', Some ''-l'', Some ''4242'', None, Some [], Some []]
       = arg_strings 4242 (strtok_all ?line)"
    by fastforce
  from parser_null_terminates [of "fresh_cmd 2" 4242 "''  ''"] h2
  have "cmdArgCount \<lparr> cmdargs = [None, Some []], cmdArgCount = 0,
               inputfile = None, outputfile = None, background = False \<rparr> = 0"
    by simp
  show ?thesis
    using la ret av e rc h1 h2 by simp
qed

text \<open>
  C10 as stated (after every call) fails on a line of 512 tokens with the array of 512
  slots that \<^verbatim>\<open>main\<close> passes: the index reaches 512 and \<^verbatim>\<open>free(args[idx]); args[idx] = NULL;\<close>
  touches the slot past the end of the array.
\<close>

theorem parser_array_overflow_counterexample:
  "parseUserCmd 4242 (concat (replicate 512 ''a '')) (fresh_cmd MAX_LINE_ARGS) = Inl OutOfBounds"
  by code_simp

end
